theory Spec2Isabelle
  imports Main "HOL-Library.Sublist" "HOL-Library.Multiset"
begin

section \<open>JavaScript values and the string operations the page uses\<close>

text \<open>
  The page (\<^verbatim>\<open>src/src/App.jsx\<close>, and its plainer sibling \<^verbatim>\<open>src/unnamed/part_000\<close>) reads a
  JSON payload, so the payload is modelled as untyped JSON values, together with
  \<^verbatim>\<open>undefined\<close>, which property access produces.  Strings are HOL strings; the model is
  exact on ASCII text (\<^verbatim>\<open>toLowerCase\<close>, \<^verbatim>\<open>trim\<close> and \<^verbatim>\<open>parseInt\<close> treat only the ASCII
  letters and the ASCII white space specially), a character outside ASCII is the
  sequence of its UTF-8 bytes.  Numbers are integers: every number the page computes comes
  out of \<^verbatim>\<open>parseInt\<close>, and the model takes its value exactly, as JavaScript does below
  \<open>2\<^sup>5\<^sup>3\<close>; a number of the payload is looked at only for being zero or not.  The own
  properties of an object are an association list with distinct keys, in insertion order.
\<close>

datatype jsval =
    JUndefined
  | JNull
  | JBool bool
  | JNum int
  | JStr string
  | JArr "jsval list"
  | JObj "(string \<times> jsval) list"

datatype jserror = TypeError | NetworkError | SyntaxError
  \<comment> \<open>what a property read or a call throws, what a rejected \<^verbatim>\<open>fetch\<close> throws, and what
      \<^verbatim>\<open>response.json()\<close> throws on a body that is not JSON\<close>

definition bindE :: "'e + 'a \<Rightarrow> ('a \<Rightarrow> 'e + 'b) \<Rightarrow> 'e + 'b" where
  "bindE m f = (case m of Inl e \<Rightarrow> Inl e | Inr x \<Rightarrow> f x)"

fun mapE :: "('a \<Rightarrow> 'e + 'b) \<Rightarrow> 'a list \<Rightarrow> 'e + 'b list" where
  "mapE f [] = Inr []"
| "mapE f (x # xs) = bindE (f x) (\<lambda>y. bindE (mapE f xs) (\<lambda>ys. Inr (y # ys)))"

fun filterE :: "('a \<Rightarrow> 'e + bool) \<Rightarrow> 'a list \<Rightarrow> 'e + 'a list" where
  "filterE p [] = Inr []"
| "filterE p (x # xs) =
     bindE (p x) (\<lambda>b. bindE (filterE p xs) (\<lambda>ys. Inr (if b then x # ys else ys)))"

fun truthy :: "jsval \<Rightarrow> bool" where
  "truthy JUndefined = False"
| "truthy JNull = False"
| "truthy (JBool b) = b"
| "truthy (JNum n) = (n \<noteq> 0)"
| "truthy (JStr s) = (s \<noteq> [])"
| "truthy (JArr xs) = True"
| "truthy (JObj kvs) = True"

definition js_or :: "jsval \<Rightarrow> jsval \<Rightarrow> jsval" where
  \<comment> \<open>\<^verbatim>\<open>a || b\<close>\<close>
  "js_or a b = (if truthy a then a else b)"

fun nullish :: "jsval \<Rightarrow> bool" where
  "nullish JUndefined = True"
| "nullish JNull = True"
| "nullish v = False"

fun getProp :: "jsval \<Rightarrow> string \<Rightarrow> jserror + jsval" where
  \<comment> \<open>\<^verbatim>\<open>v.k\<close> for the data keys the page reads (none of them is an index, a method or
      \<^verbatim>\<open>length\<close>): reading a property of \<^verbatim>\<open>undefined\<close> or \<^verbatim>\<open>null\<close> throws, a primitive or
      an array has no such property.\<close>
  "getProp JUndefined k = Inl TypeError"
| "getProp JNull k = Inl TypeError"
| "getProp (JObj kvs) k = Inr (case map_of kvs k of Some x \<Rightarrow> x | None \<Rightarrow> JUndefined)"
| "getProp v k = Inr JUndefined"

fun index0 :: "jsval \<Rightarrow> jserror + jsval" where
  \<comment> \<open>\<^verbatim>\<open>v[0]\<close>\<close>
  "index0 JUndefined = Inl TypeError"
| "index0 JNull = Inl TypeError"
| "index0 (JArr xs) = Inr (case xs of [] \<Rightarrow> JUndefined | x # _ \<Rightarrow> x)"
| "index0 (JStr s) = Inr (case s of [] \<Rightarrow> JUndefined | c # _ \<Rightarrow> JStr [c])"
| "index0 (JObj kvs) = Inr (case map_of kvs ''0'' of Some x \<Rightarrow> x | None \<Rightarrow> JUndefined)"
| "index0 v = Inr JUndefined"

definition optchain :: "jsval \<Rightarrow> (jsval \<Rightarrow> jserror + jsval) \<Rightarrow> jserror + jsval" where
  \<comment> \<open>\<^verbatim>\<open>v?.rest\<close>: the rest of the chain is skipped when \<^verbatim>\<open>v\<close> is \<^verbatim>\<open>undefined\<close> or \<^verbatim>\<open>null\<close>\<close>
  "optchain v rest = (if nullish v then Inr JUndefined else rest v)"

fun str_method :: "jsval \<Rightarrow> (string \<Rightarrow> string) \<Rightarrow> jserror + string option" where
  \<comment> \<open>\<^verbatim>\<open>v?.m(...)...\<close> for a chain of string methods: skipped (\<^verbatim>\<open>undefined\<close>, here \<open>None\<close>) on
      \<^verbatim>\<open>undefined\<close> and \<^verbatim>\<open>null\<close>, run on a string, and "not a function" on anything else.\<close>
  "str_method JUndefined m = Inr None"
| "str_method JNull m = Inr None"
| "str_method (JStr s) m = Inr (Some (m s))"
| "str_method v m = Inl TypeError"

subsection \<open>Strings\<close>

definition lower_char :: "char \<Rightarrow> char" where
  "lower_char c = (let n = (of_char c :: nat) in if 65 \<le> n \<and> n \<le> 90 then char_of (n + 32) else c)"

definition toLowerCase :: "string \<Rightarrow> string" where
  "toLowerCase s = map lower_char s"

fun startsWith :: "string \<Rightarrow> string \<Rightarrow> bool" where
  \<comment> \<open>\<open>startsWith s t\<close>: \<open>t\<close> is an initial segment of \<open>s\<close>\<close>
  "startsWith s [] = True"
| "startsWith [] (d # t) = False"
| "startsWith (c # s) (d # t) = (c = d \<and> startsWith s t)"

fun includes_js :: "string \<Rightarrow> string \<Rightarrow> bool" where
  \<comment> \<open>\<^verbatim>\<open>s.includes(t)\<close>\<close>
  "includes_js [] t = (t = [])"
| "includes_js (c # s) t = (startsWith (c # s) t \<or> includes_js s t)"

fun replace :: "string \<Rightarrow> string \<Rightarrow> string \<Rightarrow> string" where
  \<comment> \<open>\<^verbatim>\<open>s.replace(pat, rep)\<close> with a string pattern: the first occurrence only
      (\<open>rep\<close> without \<^verbatim>\<open>$\<close>)\<close>
  "replace pat rep [] = (if pat = [] then rep else [])"
| "replace pat rep (c # s) =
     (if startsWith (c # s) pat then rep @ drop (length pat) (c # s)
      else c # replace pat rep s)"

definition is_ws :: "char \<Rightarrow> bool" where
  "is_ws c = (c \<in> set [CHR 0x09, CHR 0x0A, CHR 0x0B, CHR 0x0C, CHR 0x0D, CHR 0x20])"

definition trim :: "string \<Rightarrow> string" where
  "trim s = rev (dropWhile is_ws (rev (dropWhile is_ws s)))"

fun split :: "char \<Rightarrow> string \<Rightarrow> string list" where
  \<comment> \<open>\<^verbatim>\<open>s.split(sep)\<close> for a separator of one character; never empty\<close>
  "split sep [] = [[]]"
| "split sep (c # s) =
     (if c = sep then [] # split sep s
      else (case split sep s of [] \<Rightarrow> [[c]] | t # ts \<Rightarrow> (c # t) # ts))"

definition digit_val :: "char \<Rightarrow> nat option" where
  "digit_val c =
     (let n = (of_char c :: nat) in
      if 48 \<le> n \<and> n \<le> 57 then Some (n - 48)
      else if 97 \<le> n \<and> n \<le> 122 then Some (n - 87)
      else if 65 \<le> n \<and> n \<le> 90 then Some (n - 55)
      else None)"

definition is_digit_in :: "nat \<Rightarrow> char \<Rightarrow> bool" where
  "is_digit_in R c = (case digit_val c of Some d \<Rightarrow> d < R | None \<Rightarrow> False)"

fun digits_value :: "nat \<Rightarrow> nat \<Rightarrow> string \<Rightarrow> nat" where
  "digits_value R acc [] = acc"
| "digits_value R acc (c # cs) =
     digits_value R (acc * R + (case digit_val c of Some d \<Rightarrow> d | None \<Rightarrow> 0)) cs"

definition parseInt :: "string \<Rightarrow> int option" where
  \<comment> \<open>\<^verbatim>\<open>parseInt(s)\<close> without a radix; \<open>None\<close> is \<^verbatim>\<open>NaN\<close>.  Leading white space is skipped,
      then a sign, then \<^verbatim>\<open>0x\<close> switches to base 16, then the longest run of digits is read.\<close>
  "parseInt inputString =
     (let S = dropWhile is_ws inputString;
          sign = (if startsWith S ''-'' then - 1 else 1 :: int);
          S1 = (if startsWith S ''+'' \<or> startsWith S ''-'' then tl S else S);
          hex = (startsWith S1 ''0x'' \<or> startsWith S1 ''0X'');
          R = (if hex then 16 else 10);
          S2 = (if hex then drop 2 S1 else S1);
          Z = takeWhile (is_digit_in R) S2
      in if Z = [] then None else Some (sign * int (digits_value R 0 Z)))"

definition parseInt_opt :: "string option \<Rightarrow> int option" where
  \<comment> \<open>\<^verbatim>\<open>parseInt\<close> of the result of an optional chain: \<^verbatim>\<open>undefined\<close> is first turned into
      the string \<^verbatim>\<open>"undefined"\<close>\<close>
  "parseInt_opt t = parseInt (case t of None \<Rightarrow> ''undefined'' | Some s \<Rightarrow> s)"

definition or0 :: "int option \<Rightarrow> int" where
  \<comment> \<open>\<^verbatim>\<open>n || 0\<close> for a number: \<^verbatim>\<open>NaN\<close> and \<^verbatim>\<open>0\<close> are falsy\<close>
  "or0 n = (case n of None \<Rightarrow> 0 | Some k \<Rightarrow> if k = 0 then 0 else k)"

section \<open>The records of the page\<close>

datatype variant = Richer | Plain
  \<comment> \<open>\<open>Richer\<close> is \<^verbatim>\<open>src/src/App.jsx\<close>, \<open>Plain\<close> is \<^verbatim>\<open>src/unnamed/part_000\<close>\<close>

record DoctorRecord =
  id' :: jsval
  name :: jsval
  specialty :: jsval
  experience :: int
  location :: jsval
  address :: jsval
  fee :: int
  image' :: jsval
  languages :: jsval
  videoConsult :: jsval
  inClinic :: jsval
  rating :: "string option"

definition glyph :: "variant \<Rightarrow> string" where
  \<comment> \<open>the currency glyph as each file spells it: the rupee sign U+20B9 in \<^verbatim>\<open>App.jsx\<close>, and
      three other characters (U+201A, U+00C7, U+03C0) in \<^verbatim>\<open>part_000\<close>\<close>
  "glyph v = (case v of
       Richer \<Rightarrow> [CHR 0xE2, CHR 0x82, CHR 0xB9]
     | Plain \<Rightarrow> [CHR 0xE2, CHR 0x80, CHR 0x9A, CHR 0xC3, CHR 0x87, CHR 0xCF, CHR 0x80])"

definition specialty_of :: "jsval \<Rightarrow> jserror + jsval" where
  \<comment> \<open>\<^verbatim>\<open>doctor.specialities[0]?.name || ''\<close>\<close>
  "specialty_of doctor =
     bindE (getProp doctor ''specialities'') (\<lambda>ss.
     bindE (index0 ss) (\<lambda>s0.
     bindE (optchain s0 (\<lambda>s. getProp s ''name'')) (\<lambda>n.
     Inr (js_or n (JStr '''')))))"

definition experience_of :: "jsval \<Rightarrow> jserror + int" where
  \<comment> \<open>\<^verbatim>\<open>parseInt(doctor.experience?.split(' ')[0]) || 0\<close>\<close>
  "experience_of doctor =
     bindE (getProp doctor ''experience'') (\<lambda>e.
     bindE (str_method e (\<lambda>s. hd (split CHR '' '' s))) (\<lambda>t.
     Inr (or0 (parseInt_opt t))))"

definition location_of :: "jsval \<Rightarrow> jserror + jsval" where
  \<comment> \<open>\<^verbatim>\<open>doctor.clinic?.address?.locality || ''\<close>\<close>
  "location_of doctor =
     bindE (getProp doctor ''clinic'') (\<lambda>c.
     bindE (optchain c (\<lambda>c. getProp c ''address'')) (\<lambda>a.
     bindE (optchain a (\<lambda>a. getProp a ''locality'')) (\<lambda>l.
     Inr (js_or l (JStr '''')))))"

definition address_of :: "jsval \<Rightarrow> jserror + jsval" where
  \<comment> \<open>\<^verbatim>\<open>doctor.clinic?.name || ''\<close>\<close>
  "address_of doctor =
     bindE (getProp doctor ''clinic'') (\<lambda>c.
     bindE (optchain c (\<lambda>c. getProp c ''name'')) (\<lambda>n.
     Inr (js_or n (JStr ''''))))"

definition fee_of :: "variant \<Rightarrow> jsval \<Rightarrow> jserror + int" where
  \<comment> \<open>\<^verbatim>\<open>parseInt(doctor.fees?.replace(glyph, '').trim()) || 0\<close>\<close>
  "fee_of v doctor =
     bindE (getProp doctor ''fees'') (\<lambda>f.
     bindE (str_method f (\<lambda>s. trim (replace (glyph v) '''' s))) (\<lambda>t.
     Inr (or0 (parseInt_opt t))))"

definition transform :: "variant \<Rightarrow> string \<Rightarrow> jsval \<Rightarrow> jserror + DoctorRecord" where
  \<comment> \<open>the arrow function given to \<^verbatim>\<open>data.map\<close>; \<open>rnd\<close> is the rating that
      \<^verbatim>\<open>(Math.random() * 2 + 3).toFixed(1)\<close> draws for this item (\<^verbatim>\<open>App.jsx\<close> only)\<close>
  "transform v rnd doctor =
     bindE (getProp doctor ''id'') (\<lambda>i.
     bindE (getProp doctor ''name'') (\<lambda>n.
     bindE (specialty_of doctor) (\<lambda>sp.
     bindE (experience_of doctor) (\<lambda>ex.
     bindE (location_of doctor) (\<lambda>loc.
     bindE (address_of doctor) (\<lambda>ad.
     bindE (fee_of v doctor) (\<lambda>f.
     bindE (getProp doctor ''photo'') (\<lambda>ph.
     bindE (getProp doctor ''languages'') (\<lambda>ls.
     bindE (getProp doctor ''video_consult'') (\<lambda>vc.
     bindE (getProp doctor ''in_clinic'') (\<lambda>ic.
     Inr \<lparr> id' = i, name = n, specialty = sp, experience = ex, location = loc,
           address = ad, fee = f,
           image' = js_or ph (JStr ''https://via.placeholder.com/80''),
           languages = js_or ls (JArr []),
           videoConsult = js_or vc (JBool False),
           inClinic = js_or ic (JBool False),
           rating = (case v of Richer \<Rightarrow> Some rnd | Plain \<Rightarrow> None) \<rparr>)))))))))))"

definition transformedData :: "variant \<Rightarrow> (nat \<Rightarrow> string) \<Rightarrow> jsval \<Rightarrow> jserror + DoctorRecord list" where
  \<comment> \<open>\<^verbatim>\<open>data.map(doctor => ...)\<close>: only an array has \<^verbatim>\<open>map\<close>; the first item that throws
      ends the whole call.  \<open>rnd i\<close> is the rating drawn for item \<open>i\<close>.\<close>
  "transformedData v rnd data =
     (case data of
        JArr items \<Rightarrow> mapE (\<lambda>(i, doctor). transform v (rnd i) doctor) (enumerate 0 items)
      | _ \<Rightarrow> Inl TypeError)"

section \<open>Criteria and page state\<close>

record Sorting =
  fees :: bool
  experience' :: bool

record QueryCriteria =
  searchQuery :: string
  filters :: "(string \<times> bool) list"
  consultationType :: string
  sorting :: Sorting

record AppState = QueryCriteria +
  doctors :: "DoctorRecord list"
  filteredDoctors :: "DoctorRecord list"
  isLoading :: bool

record Page =
  app :: AppState
  url_query :: string
  \<comment> \<open>the state of the component, and the query of the page's URL (what follows \<^verbatim>\<open>?\<close>)\<close>

definition initial :: AppState where
  \<comment> \<open>the arguments of the seven \<^verbatim>\<open>useState\<close> calls\<close>
  "initial =
     \<lparr> searchQuery = '''',
       filters = [(''ayurveda'', False), (''homeopath'', False), (''dentist'', False),
                  (''physician'', False), (''gynecologist'', False)],
       consultationType = ''all'',
       sorting = \<lparr> fees = False, experience' = False \<rparr>,
       doctors = [], filteredDoctors = [], isLoading = True \<rparr>"

section \<open>Loading\<close>

datatype fetch_outcome = FetchRejects | JsonRejects | Json jsval

definition fetchDoctors ::
  "variant \<Rightarrow> (nat \<Rightarrow> string) \<Rightarrow> fetch_outcome \<Rightarrow> AppState \<Rightarrow> AppState \<times> jserror option" where
  \<comment> \<open>\<^verbatim>\<open>fetchDoctors\<close> run to its end: the state it leaves, and what \<^verbatim>\<open>console.error\<close>
      was given, if it was called\<close>
  "fetchDoctors v rnd outcome s =
     (let s1 = s\<lparr>isLoading := True\<rparr>;
          tried =
            bindE (case outcome of
                     FetchRejects \<Rightarrow> Inl NetworkError
                   | JsonRejects \<Rightarrow> Inl SyntaxError
                   | Json data \<Rightarrow> Inr data)
                  (transformedData v rnd)
      in case tried of
           Inr transformed \<Rightarrow>
             (s1\<lparr>doctors := transformed, filteredDoctors := transformed, isLoading := False\<rparr>, None)
         | Inl error \<Rightarrow>
             (s1\<lparr>doctors := [], filteredDoctors := [], isLoading := False\<rparr>, Some error))"

section \<open>Filtering and sorting\<close>

fun insert_by :: "('a \<Rightarrow> 'a \<Rightarrow> int) \<Rightarrow> 'a \<Rightarrow> 'a list \<Rightarrow> 'a list" where
  "insert_by cmp x [] = [x]"
| "insert_by cmp x (y # ys) = (if cmp x y \<le> 0 then x # y # ys else y # insert_by cmp x ys)"

fun sort_js :: "('a \<Rightarrow> 'a \<Rightarrow> int) \<Rightarrow> 'a list \<Rightarrow> 'a list" where
  \<comment> \<open>\<^verbatim>\<open>Array.prototype.sort(cmp)\<close>.  The language fixes the result for a comparator that is
      a consistent order: the elements in ascending order of \<open>cmp\<close>, elements that compare
      equal in their order before the call.  Insertion from the right computes that list.\<close>
  "sort_js cmp [] = []"
| "sort_js cmp (x # xs) = insert_by cmp x (sort_js cmp xs)"

definition activeSpecialtyFilters :: "(string \<times> bool) list \<Rightarrow> string list" where
  "activeSpecialtyFilters fs = map fst (filter (\<lambda>(_, isActive). isActive) fs)"

fun lowerOf :: "jsval \<Rightarrow> jserror + string" where
  \<comment> \<open>\<^verbatim>\<open>v.toLowerCase()\<close>: only a string has the method\<close>
  "lowerOf (JStr s) = Inr (toLowerCase s)"
| "lowerOf v = Inl TypeError"

definition specialtyPred :: "string list \<Rightarrow> DoctorRecord \<Rightarrow> jserror + bool" where
  "specialtyPred active doctor =
     bindE (lowerOf (specialty doctor)) (\<lambda>docSpecialty.
     Inr (list_ex (\<lambda>sp. includes_js docSpecialty (toLowerCase sp)) active))"

definition consultationPred :: "string \<Rightarrow> DoctorRecord \<Rightarrow> bool" where
  "consultationPred ct doctor =
     (if ct = ''video'' then truthy (videoConsult doctor)
      else if ct = ''clinic'' then truthy (inClinic doctor)
      else True)"

definition searchPred :: "variant \<Rightarrow> string \<Rightarrow> DoctorRecord \<Rightarrow> jserror + bool" where
  \<comment> \<open>\<^verbatim>\<open>App.jsx\<close> also looks in the specialty, when the name does not match\<close>
  "searchPred v q doctor =
     bindE (lowerOf (name doctor)) (\<lambda>n.
     if includes_js n (toLowerCase q) then Inr True
     else (case v of
             Plain \<Rightarrow> Inr False
           | Richer \<Rightarrow> bindE (lowerOf (specialty doctor)) (\<lambda>sp.
                         Inr (includes_js sp (toLowerCase q)))))"

definition specialtyStage :: "(string \<times> bool) list \<Rightarrow> DoctorRecord list \<Rightarrow> jserror + DoctorRecord list" where
  \<comment> \<open>the block under \<^verbatim>\<open>// Apply specialty filters\<close>\<close>
  "specialtyStage fs result =
     (let active = activeSpecialtyFilters fs in
      if length active > 0 then filterE (specialtyPred active) result else Inr result)"

definition consultationStage :: "string \<Rightarrow> DoctorRecord list \<Rightarrow> DoctorRecord list" where
  \<comment> \<open>the block under \<^verbatim>\<open>// Apply consultation type filter\<close>\<close>
  "consultationStage ct result =
     (if ct \<noteq> ''all'' then filter (consultationPred ct) result else result)"

definition searchStage :: "variant \<Rightarrow> string \<Rightarrow> DoctorRecord list \<Rightarrow> jserror + DoctorRecord list" where
  \<comment> \<open>the block under \<^verbatim>\<open>// Apply search\<close>: a string is truthy when it is not empty\<close>
  "searchStage v q result =
     (if q \<noteq> [] then filterE (searchPred v q) result else Inr result)"

definition sortStage :: "Sorting \<Rightarrow> DoctorRecord list \<Rightarrow> DoctorRecord list" where
  \<comment> \<open>the block under \<^verbatim>\<open>// Apply sorting\<close>\<close>
  "sortStage so result =
     (if fees so then sort_js (\<lambda>a b. fee a - fee b) result
      else if experience' so then sort_js (\<lambda>a b. experience b - experience a) result
      else result)"

definition applyQuery ::
  "variant \<Rightarrow> DoctorRecord list \<Rightarrow> 'a QueryCriteria_scheme \<Rightarrow> jserror + DoctorRecord list" where
  \<comment> \<open>the value given to \<^verbatim>\<open>setFilteredDoctors\<close> by the second effect, or what the effect
      throws; \<open>L\<close> is \<^verbatim>\<open>doctors\<close>\<close>
  "applyQuery v L c =
     bindE (specialtyStage (filters c) L) (\<lambda>r1.
     bindE (searchStage v (searchQuery c) (consultationStage (consultationType c) r1)) (\<lambda>r3.
     Inr (sortStage (sorting c) r3)))"

section \<open>The query string\<close>

type_synonym URLSearchParams = "(string \<times> string) list"

fun params_set :: "string \<Rightarrow> string \<Rightarrow> URLSearchParams \<Rightarrow> URLSearchParams" where
  \<comment> \<open>\<^verbatim>\<open>params.set(k, v)\<close>: the first entry named \<open>k\<close> takes the value and the others go,
      or a new entry is added at the end\<close>
  "params_set k v [] = [(k, v)]"
| "params_set k v ((k', v') # ps) =
     (if k' = k then (k, v) # filter (\<lambda>(n, _). n \<noteq> k) ps else (k', v') # params_set k v ps)"

definition params_get :: "URLSearchParams \<Rightarrow> string \<Rightarrow> string option" where
  \<comment> \<open>\<^verbatim>\<open>params.get(k)\<close>: the value of the first entry named \<open>k\<close>, \<open>None\<close> for \<^verbatim>\<open>null\<close>\<close>
  "params_get ps k = map_of ps k"

definition hex_digit :: "nat \<Rightarrow> char" where
  "hex_digit n = (if n < 10 then char_of (48 + n) else char_of (55 + n))"

definition urlencode_char :: "char \<Rightarrow> string" where
  "urlencode_char c =
     (let n = (of_char c :: nat) in
      if n = 32 then ''+''
      else if (48 \<le> n \<and> n \<le> 57) \<or> (65 \<le> n \<and> n \<le> 90) \<or> (97 \<le> n \<and> n \<le> 122)
              \<or> c \<in> set ''*-._'' then [c]
      else [CHR ''%'', hex_digit (n div 16), hex_digit (n mod 16)])"

definition urlencode :: "string \<Rightarrow> string" where
  "urlencode s = concat (map urlencode_char s)"

fun join_amp :: "string list \<Rightarrow> string" where
  "join_amp [] = []"
| "join_amp [p] = p"
| "join_amp (p # q # ps) = p @ ''&'' @ join_amp (q # ps)"

definition params_toString :: "URLSearchParams \<Rightarrow> string" where
  "params_toString ps = join_amp (map (\<lambda>(k, v). urlencode k @ ''='' @ urlencode v) ps)"

definition hex_val :: "char \<Rightarrow> nat option" where
  "hex_val c = (case digit_val c of Some d \<Rightarrow> if d < 16 then Some d else None | None \<Rightarrow> None)"

fun percent_decode :: "string \<Rightarrow> string" where
  "percent_decode (c # h # l # rest) =
     (if c = CHR ''%'' then
        (case (hex_val h, hex_val l) of
           (Some a, Some b) \<Rightarrow> char_of (16 * a + b) # percent_decode rest
         | _ \<Rightarrow> c # percent_decode (h # l # rest))
      else c # percent_decode (h # l # rest))"
| "percent_decode s = s"

definition form_decode :: "string \<Rightarrow> string" where
  "form_decode s = percent_decode (map (\<lambda>c. if c = CHR ''+'' then CHR '' '' else c) s)"

definition parse_pair :: "string \<Rightarrow> string \<times> string" where
  "parse_pair piece =
     (let n = takeWhile (\<lambda>c. c \<noteq> CHR ''='') piece;
          v = drop (length n + 1) piece
      in (form_decode n, form_decode v))"

definition new_URLSearchParams :: "string \<Rightarrow> URLSearchParams" where
  \<comment> \<open>\<^verbatim>\<open>new URLSearchParams(init)\<close> for a string: one leading \<^verbatim>\<open>?\<close> is dropped, the rest is cut
      at every \<^verbatim>\<open>&\<close>, empty pieces are skipped, each piece is cut at its first \<^verbatim>\<open>=\<close>\<close>
  "new_URLSearchParams init =
     map parse_pair
       (filter (\<lambda>piece. piece \<noteq> [])
          (split CHR ''&'' (if startsWith init ''?'' then tl init else init)))"

definition serializeToURL :: "'a QueryCriteria_scheme \<Rightarrow> string" where
  \<comment> \<open>\<^verbatim>\<open>params.toString()\<close> at the end of the second effect: what follows \<^verbatim>\<open>?\<close> in the URL it
      writes\<close>
  "serializeToURL c =
     (let p1 = foldl (\<lambda>ps (key, value).
                   if value then params_set (''filter-specialty-'' @ key) ''true'' ps else ps)
                 [] (filters c);
          p2 = (if consultationType c \<noteq> ''all''
                then params_set ''consultation-type'' (consultationType c) p1 else p1);
          p3 = (if fees (sorting c) then params_set ''sort-fees'' ''true'' p2 else p2);
          p4 = (if experience' (sorting c) then params_set ''sort-experience'' ''true'' p3 else p3);
          p5 = (if searchQuery c \<noteq> [] then params_set ''search'' (searchQuery c) p4 else p4)
      in params_toString p5)"

definition location_search :: "string \<Rightarrow> string" where
  \<comment> \<open>\<^verbatim>\<open>window.location.search\<close> of a page whose URL has the query \<open>q\<close>: empty for the empty
      query, otherwise \<^verbatim>\<open>?\<close> and the query\<close>
  "location_search q = (if q = [] then [] else CHR ''?'' # q)"

definition applyEffect :: "variant \<Rightarrow> Page \<Rightarrow> jserror + Page" where
  \<comment> \<open>the second effect, \<^verbatim>\<open>// Apply filters and sorting\<close>: it gives the derived list to
      \<^verbatim>\<open>setFilteredDoctors\<close>, then \<^verbatim>\<open>replaceState\<close> puts the serialized criteria in place of
      the URL's query; if the filtering throws, nothing of it happens\<close>
  "applyEffect v p =
     bindE (applyQuery v (doctors (app p)) (app p)) (\<lambda>result.
     Inr \<lparr> app = (app p)\<lparr>filteredDoctors := result\<rparr>, url_query = serializeToURL (app p) \<rparr>)"

definition deserializeFromURL :: "Page \<Rightarrow> Page" where
  \<comment> \<open>the third effect, \<^verbatim>\<open>// Handle URL parameters on page load\<close>: it reads
      \<^verbatim>\<open>window.location.search\<close> as the page has it when the effect runs\<close>
  "deserializeFromURL p =
     (let params = new_URLSearchParams (location_search (url_query p));
          c = app p;
          newFilters = map (\<lambda>(key, _).
                         (key, params_get params (''filter-specialty-'' @ key) = Some ''true''))
                       (filters c);
          c1 = c\<lparr>filters := newFilters\<rparr>;
          c2 = (case params_get params ''consultation-type'' of
                  Some consultType \<Rightarrow> if consultType \<noteq> [] then c1\<lparr>consultationType := consultType\<rparr> else c1
                | None \<Rightarrow> c1);
          c3 = c2\<lparr>sorting := \<lparr> fees = (params_get params ''sort-fees'' = Some ''true''),
                              experience' = (params_get params ''sort-experience'' = Some ''true'') \<rparr>\<rparr>;
          c4 = (case params_get params ''search'' of
                  Some q \<Rightarrow> if q \<noteq> [] then c3\<lparr>searchQuery := q\<rparr> else c3
                | None \<Rightarrow> c3)
      in p\<lparr>app := c4\<rparr>)"

definition mount :: "variant \<Rightarrow> string \<Rightarrow> jserror + Page" where
  \<comment> \<open>loading the page at a URL whose query is \<open>q\<close>.  The component renders with the
      \<^verbatim>\<open>useState\<close> values, then its effects run in the order they are written: the first
      only starts the request, the second filters and rewrites the URL, the third reads the
      URL.  The second and third set different state variables, and the third reads no
      state the second sets, so their updates are applied one after the other.\<close>
  "mount v q = bindE (applyEffect v \<lparr> app = initial, url_query = q \<rparr>) (\<lambda>p. Inr (deserializeFromURL p))"

section \<open>The handlers\<close>

fun set_key :: "string \<Rightarrow> bool \<Rightarrow> (string \<times> bool) list \<Rightarrow> (string \<times> bool) list" where
  \<comment> \<open>\<^verbatim>\<open>{...prev, [filterName]: value}\<close>: a key that is there keeps its place, a new one
      goes to the end (the checkboxes pass the five keys of the start only)\<close>
  "set_key k v [] = [(k, v)]"
| "set_key k v ((k', v') # kvs) = (if k' = k then (k, v) # kvs else (k', v') # set_key k v kvs)"

definition handleFilterChange :: "string \<Rightarrow> bool \<Rightarrow> 'a QueryCriteria_scheme \<Rightarrow> 'a QueryCriteria_scheme" where
  "handleFilterChange filterName value c = c\<lparr>filters := set_key filterName value (filters c)\<rparr>"

definition handleConsultationTypeChange :: "string \<Rightarrow> 'a QueryCriteria_scheme \<Rightarrow> 'a QueryCriteria_scheme" where
  "handleConsultationTypeChange type c = c\<lparr>consultationType := type\<rparr>"

definition handleSortChange :: "string \<Rightarrow> 'a QueryCriteria_scheme \<Rightarrow> 'a QueryCriteria_scheme" where
  "handleSortChange sortType c =
     c\<lparr>sorting := \<lparr> fees = (sortType = ''fees''), experience' = (sortType = ''experience'') \<rparr>\<rparr>"

definition handleSearchChange :: "string \<Rightarrow> 'a QueryCriteria_scheme \<Rightarrow> 'a QueryCriteria_scheme" where
  "handleSearchChange value c = c\<lparr>searchQuery := value\<rparr>"

definition clearAllFilters :: "'a QueryCriteria_scheme \<Rightarrow> 'a QueryCriteria_scheme" where
  \<comment> \<open>\<^verbatim>\<open>App.jsx\<close> only\<close>
  "clearAllFilters c =
     c\<lparr>filters := [(''ayurveda'', False), (''homeopath'', False), (''dentist'', False),
                   (''physician'', False), (''gynecologist'', False)],
       consultationType := ''all'',
       sorting := \<lparr> fees = False, experience' = False \<rparr>,
       searchQuery := ''''\<rparr>"

section \<open>The specification's reading of a query\<close>

text \<open>
  The specification describes a record whose name and specialty are strings, and says for
  each of the three criteria which records pass.  These predicates are written from its
  words (section 4.1, \<^emph>\<open>applyQuery\<close>, (a) to (c)), to be compared with what the code
  computes.  "Contains" is \<^const>\<open>sublist\<close>: \<open>sublist t s\<close> holds when \<open>s = ps @ t @ ss\<close>
  for some \<open>ps\<close> and \<open>ss\<close>.
\<close>

fun is_str :: "jsval \<Rightarrow> bool" where
  "is_str (JStr s) = True"
| "is_str v = False"

fun the_str :: "jsval \<Rightarrow> string" where
  "the_str (JStr s) = s"
| "the_str v = []"

definition passes_specialty :: "(string \<times> bool) list \<Rightarrow> DoctorRecord \<Rightarrow> bool" where
  \<comment> \<open>no specialty key is active, or the specialty text contains, case-insensitively, an
      active key\<close>
  "passes_specialty fs d =
     (\<not> (\<exists>(k, on) \<in> set fs. on) \<or>
      (\<exists>(k, on) \<in> set fs. on \<and> sublist (toLowerCase k) (toLowerCase (the_str (specialty d)))))"

definition passes_mode :: "string \<Rightarrow> DoctorRecord \<Rightarrow> bool" where
  \<comment> \<open>video-only keeps the records that support video, clinic-only those that support a
      visit, anything else keeps every record\<close>
  "passes_mode ct d =
     ((ct = ''video'' \<longrightarrow> truthy (videoConsult d)) \<and> (ct = ''clinic'' \<longrightarrow> truthy (inClinic d)))"

definition passes_search :: "variant \<Rightarrow> string \<Rightarrow> DoctorRecord \<Rightarrow> bool" where
  \<comment> \<open>the empty search string matches everything; otherwise the name (in the richer
      variant, the name or the specialty) contains the search string, case-insensitively\<close>
  "passes_search v q d =
     (q = [] \<or> sublist (toLowerCase q) (toLowerCase (the_str (name d)))
      \<or> (v = Richer \<and> sublist (toLowerCase q) (toLowerCase (the_str (specialty d)))))"

definition matching :: "variant \<Rightarrow> 'a QueryCriteria_scheme \<Rightarrow> DoctorRecord list \<Rightarrow> DoctorRecord list" where
  \<comment> \<open>the records of \<open>L\<close> that pass all three, in the order of \<open>L\<close>\<close>
  "matching v c L =
     filter (\<lambda>d. passes_specialty (filters c) d \<and> passes_mode (consultationType c) d
                 \<and> passes_search v (searchQuery c) d) L"

subsection \<open>Sample data\<close>

definition mk :: "string \<Rightarrow> string \<Rightarrow> int \<Rightarrow> int \<Rightarrow> bool \<Rightarrow> bool \<Rightarrow> DoctorRecord" where
  "mk n sp ex f vc ic =
     \<lparr> id' = JStr n, name = JStr n, specialty = JStr sp, experience = ex, location = JStr [],
       address = JStr [], fee = f, image' = JStr ''https://via.placeholder.com/80'',
       languages = JArr [], videoConsult = JBool vc, inClinic = JBool ic, rating = None \<rparr>"

definition anna :: DoctorRecord where
  "anna = mk ''Anna Smith'' ''Dentist'' 5 100 True False"

definition hannah :: DoctorRecord where
  "hannah = mk ''DR. HANNAH'' ''General Physician'' 12 100 False True"

definition bob :: DoctorRecord where
  "bob = mk ''Bob Lee'' ''Dentist'' 8 50 True True"

definition dentists_on_video_by_fee :: AppState where
  "dentists_on_video_by_fee =
     handleSortChange ''fees''
       (handleConsultationTypeChange ''video'' (handleFilterChange ''dentist'' True initial))"

definition by_fee :: AppState where
  "by_fee = handleSortChange ''fees'' initial"

definition by_experience :: AppState where
  "by_experience = handleSortChange ''experience'' initial"

definition carl :: DoctorRecord where
  "carl = mk ''Carl Jung'' ''Homeopath'' 20 300 False True"

definition dentist_on :: AppState where
  "dentist_on = handleFilterChange ''dentist'' True initial"

definition physician_on :: AppState where
  "physician_on = handleFilterChange ''physician'' True initial"

definition both_on :: AppState where
  "both_on = handleFilterChange ''physician'' True (handleFilterChange ''dentist'' True initial)"

definition spec_example :: AppState where
  \<comment> \<open>the criteria \<^verbatim>\<open>{dentist: true, sortMode: fees, search: "ann"}\<close>, everything else as at the start\<close>
  "spec_example =
     handleSearchChange ''ann'' (handleSortChange ''fees'' (handleFilterChange ''dentist'' True initial))"

definition good_fields :: "(string \<times> jsval) list" where
  "good_fields =
     [(''id'', JNum 1), (''name'', JStr ''Anna Smith''),
      (''specialities'', JArr [JObj [(''name'', JStr ''Dentist'')]]),
      (''experience'', JStr ''13 Years of experience''),
      (''fees'', JStr ([CHR 0xE2, CHR 0x82, CHR 0xB9] @ '' 500'')),
      (''video_consult'', JBool True)]"

definition malformed_fields :: "(string \<times> jsval) list" where
  "malformed_fields =
     [(''id'', JNum 2), (''name'', JStr ''Asha Rao''),
      (''specialities'', JArr []),
      (''experience'', JStr ''not a number'')]"

definition fields_without_specialities :: "(string \<times> jsval) list" where
  "fields_without_specialities =
     [(''id'', JNum 3), (''name'', JStr ''Bob Lee''),
      (''experience'', JStr ''not a number'')]"

definition fixed_rating :: "nat \<Rightarrow> string" where
  "fixed_rating i = ''4.2''"

subsection \<open>Notions the claims use\<close>

definition non_numeric :: "string \<Rightarrow> bool" where
  \<comment> \<open>a string that does not start with a number: \<^verbatim>\<open>parseInt\<close> reads \<^verbatim>\<open>NaN\<close> from it\<close>
  "non_numeric s = (parseInt s = None)"

definition load_fails :: "variant \<Rightarrow> (nat \<Rightarrow> string) \<Rightarrow> fetch_outcome \<Rightarrow> bool" where
  \<comment> \<open>something in the \<^verbatim>\<open>try\<close> block throws: the request, the decoding, or the mapping of
      the payload\<close>
  "load_fails v rnd outcome =
     (case outcome of
        FetchRejects \<Rightarrow> True
      | JsonRejects \<Rightarrow> True
      | Json data \<Rightarrow> (case transformedData v rnd data of Inl e \<Rightarrow> True | Inr rs \<Rightarrow> False))"

inductive reachable :: "variant \<Rightarrow> Page \<Rightarrow> bool" for v :: variant where
  \<comment> \<open>the states of the page: the first render at any URL, the state after the effects of
      mounting, and from there any handler, the end of the request, and the second effect
      run again\<close>
  first_render: "reachable v \<lparr> app = initial, url_query = q \<rparr>"
| mounted: "mount v q = Inr p \<Longrightarrow> reachable v p"
| filter_change: "reachable v p \<Longrightarrow> reachable v (p\<lparr>app := handleFilterChange filterName value (app p)\<rparr>)"
| consultation_change:
    "reachable v p \<Longrightarrow> reachable v (p\<lparr>app := handleConsultationTypeChange type (app p)\<rparr>)"
| sort_change: "reachable v p \<Longrightarrow> reachable v (p\<lparr>app := handleSortChange sortType (app p)\<rparr>)"
| search_change: "reachable v p \<Longrightarrow> reachable v (p\<lparr>app := handleSearchChange value (app p)\<rparr>)"
| clear_all: "reachable v p \<Longrightarrow> v = Richer \<Longrightarrow> reachable v (p\<lparr>app := clearAllFilters (app p)\<rparr>)"
| loaded: "reachable v p \<Longrightarrow> reachable v (p\<lparr>app := fst (fetchDoctors v rnd outcome (app p))\<rparr>)"
| recomputed: "reachable v p \<Longrightarrow> applyEffect v p = Inr p' \<Longrightarrow> reachable v p'"

subsection \<open>The parts of \<open>parseInt\<close>, named for the proofs\<close>

definition strip_sign :: "string \<Rightarrow> string" where
  "strip_sign S = (if startsWith S ''+'' \<or> startsWith S ''-'' then tl S else S)"

definition is_hex :: "string \<Rightarrow> bool" where
  "is_hex S1 = (startsWith S1 ''0x'' \<or> startsWith S1 ''0X'')"

definition digit_run :: "string \<Rightarrow> string" where
  "digit_run S1 =
     takeWhile (is_digit_in (if is_hex S1 then 16 else 10)) (if is_hex S1 then drop 2 S1 else S1)"

section \<open>Auxiliary facts\<close>

lemma bindE_Inr [simp]: "bindE (Inr x) f = f x"
  by (simp add: bindE_def)

lemma bindE_Inl [simp]: "bindE (Inl e) f = Inl e"
  by (simp add: bindE_def)

lemma bindE_eq_Inr: "bindE m f = Inr y \<longleftrightarrow> (\<exists>x. m = Inr x \<and> f x = Inr y)"
  by (cases m) simp_all

lemma filterE_total:
  "(\<And>x. x \<in> set xs \<Longrightarrow> p x = Inr (q x)) \<Longrightarrow> filterE p xs = Inr (filter q xs)"
  by (induction xs) simp_all

lemma startsWith_prefix: "startsWith s t \<longleftrightarrow> prefix t s"
  by (induction s t rule: startsWith.induct) auto

lemma includes_js_sublist: "includes_js s t \<longleftrightarrow> sublist t s"
  by (induction s) (simp_all add: startsWith_prefix sublist_Cons_right)

lemma insert_by_insort_key:
  "(\<And>y. y \<in> set ys \<Longrightarrow> (cmp x y \<le> 0) = (k x \<le> k y)) \<Longrightarrow> insert_by cmp x ys = insort_key k x ys"
  by (induction ys) simp_all

lemma sort_js_sort_key:
  fixes k :: "'a \<Rightarrow> int"
  assumes "\<And>x y. (cmp x y \<le> 0) = (k x \<le> k y)"
  shows "sort_js cmp xs = sort_key k xs"
  by (induction xs) (simp_all add: insert_by_insort_key assms)

lemma sortStage_fees: "fees so \<Longrightarrow> sortStage so r = sort_key fee r"
  by (simp add: sortStage_def sort_js_sort_key)

lemma sortStage_experience:
  "\<not> fees so \<Longrightarrow> experience' so \<Longrightarrow> sortStage so r = sort_key (\<lambda>d. - experience d) r"
  by (simp add: sortStage_def sort_js_sort_key)

lemma sortStage_none: "\<not> fees so \<Longrightarrow> \<not> experience' so \<Longrightarrow> sortStage so r = r"
  by (simp add: sortStage_def)

lemma applyQuery_unsorted:
  "applyQuery v L c = Inr out \<Longrightarrow>
   \<exists>pre. applyQuery v L (c\<lparr>sorting := \<lparr>fees = False, experience' = False\<rparr>\<rparr>) = Inr pre
          \<and> out = sortStage (sorting c) pre"
  by (auto simp: applyQuery_def bindE_eq_Inr sortStage_def)

lemma specialtyPred_str:
  "specialty d = JStr sp \<Longrightarrow>
   specialtyPred active d = Inr (\<exists>k \<in> set active. sublist (toLowerCase k) (toLowerCase sp))"
  by (simp add: specialtyPred_def list_ex_iff includes_js_sublist)

lemma searchPred_str:
  "name d = JStr n \<Longrightarrow> specialty d = JStr sp \<Longrightarrow>
   searchPred v q d = Inr (sublist (toLowerCase q) (toLowerCase n)
                           \<or> (v = Richer \<and> sublist (toLowerCase q) (toLowerCase sp)))"
  by (cases v) (simp_all add: searchPred_def includes_js_sublist)

lemma is_str_the_str: "is_str x \<Longrightarrow> x = JStr (the_str x)"
  by (cases x) simp_all

lemma active_set: "set (activeSpecialtyFilters fs) = {k. (k, True) \<in> set fs}"
  by (auto simp: activeSpecialtyFilters_def image_iff)

lemma specialtyStage_str:
  assumes "\<forall>d \<in> set L. is_str (specialty d)"
  shows "specialtyStage fs L = Inr (filter (passes_specialty fs) L)"
proof (cases "activeSpecialtyFilters fs = []")
  case True
  then have "{k. (k, True) \<in> set fs} = {}"
    using active_set [of fs] by simp
  then have "\<And>d. passes_specialty fs d"
    by (auto simp: passes_specialty_def)
  with True show ?thesis
    by (simp add: specialtyStage_def)
next
  case False
  then have "set (activeSpecialtyFilters fs) \<noteq> {}"
    by simp
  then obtain k where "(k, True) \<in> set fs"
    by (auto simp: active_set)
  then have some: "\<exists>(k, on) \<in> set fs. on"
    by force
  have "filterE (specialtyPred (activeSpecialtyFilters fs)) L = Inr (filter (passes_specialty fs) L)"
  proof (rule filterE_total)
    fix d assume "d \<in> set L"
    with assms have "specialty d = JStr (the_str (specialty d))"
      by (simp add: is_str_the_str)
    from specialtyPred_str [OF this] some
    show "specialtyPred (activeSpecialtyFilters fs) d = Inr (passes_specialty fs d)"
      by (auto simp: passes_specialty_def active_set)
  qed
  with False show ?thesis
    by (simp add: specialtyStage_def)
qed

lemma consultationStage_filter: "consultationStage ct L = filter (passes_mode ct) L"
proof (cases "ct = ''all''")
  case True
  then have "passes_mode ct = (\<lambda>d. True)"
    by (simp add: passes_mode_def fun_eq_iff)
  with True show ?thesis
    by (simp add: consultationStage_def)
next
  case False
  have "passes_mode ct = consultationPred ct"
    by (auto simp: passes_mode_def consultationPred_def fun_eq_iff)
  with False show ?thesis
    by (simp add: consultationStage_def)
qed

lemma searchStage_str:
  assumes "\<forall>d \<in> set L. is_str (name d) \<and> is_str (specialty d)"
  shows "searchStage v q L = Inr (filter (passes_search v q) L)"
proof (cases "q = []")
  case True
  then show ?thesis
    by (simp add: searchStage_def passes_search_def)
next
  case False
  have "filterE (searchPred v q) L = Inr (filter (passes_search v q) L)"
  proof (rule filterE_total)
    fix d assume "d \<in> set L"
    with assms have "name d = JStr (the_str (name d))" "specialty d = JStr (the_str (specialty d))"
      by (simp_all add: is_str_the_str)
    from searchPred_str [OF this] False show "searchPred v q d = Inr (passes_search v q d)"
      by (simp add: passes_search_def)
  qed
  with False show ?thesis
    by (simp add: searchStage_def)
qed

lemma applyQuery_matching:
  assumes "\<forall>d \<in> set L. is_str (name d) \<and> is_str (specialty d)"
  shows "applyQuery v L c = Inr (sortStage (sorting c) (matching v c L))"
proof -
  have 1: "specialtyStage (filters c) L = Inr (filter (passes_specialty (filters c)) L)"
    using assms by (simp add: specialtyStage_str)
  have 2: "searchStage v (searchQuery c)
             (consultationStage (consultationType c) (filter (passes_specialty (filters c)) L))
           = Inr (filter (passes_search v (searchQuery c))
                   (filter (passes_mode (consultationType c))
                     (filter (passes_specialty (filters c)) L)))"
    using assms by (simp add: consultationStage_filter searchStage_str)
  have 3: "filter (passes_search v (searchQuery c))
                   (filter (passes_mode (consultationType c))
                     (filter (passes_specialty (filters c)) L)) = matching v c L"
    by (auto simp: matching_def intro: filter_cong)
  show ?thesis
    by (simp only: applyQuery_def 1 bindE_Inr 2 3)
qed

lemma passes_specialty_active:
  "passes_specialty fs d =
     (activeSpecialtyFilters fs = [] \<or>
      (\<exists>k \<in> set (activeSpecialtyFilters fs).
         sublist (toLowerCase k) (toLowerCase (the_str (specialty d)))))"
proof -
  have "(activeSpecialtyFilters fs = []) = (\<not> (\<exists>(k, on) \<in> set fs. on))"
    using active_set [of fs] by (auto simp flip: set_empty)
  then show ?thesis
    by (auto simp: passes_specialty_def active_set)
qed

lemma union_on:
  "passes_specialty (filters both_on) d =
     (passes_specialty (filters dentist_on) d \<or> passes_specialty (filters physician_on) d)"
proof -
  have "activeSpecialtyFilters (filters both_on) = [''dentist'', ''physician'']"
    "activeSpecialtyFilters (filters dentist_on) = [''dentist'']"
    "activeSpecialtyFilters (filters physician_on) = [''physician'']"
    by code_simp+
  then show ?thesis
    by (auto simp: passes_specialty_active)
qed

lemma split_not_Nil: "split sep s \<noteq> []"
  by (induction s) (auto split: list.splits)

lemma hd_split: "hd (split sep s) = takeWhile (\<lambda>c. c \<noteq> sep) s"
  using split_not_Nil [of sep] by (induction s) (auto split: list.splits)

lemma startsWith2_append:
  assumes "rest = [] \<or> hd rest = CHR '' ''" and "x \<noteq> CHR '' ''" and "y \<noteq> CHR '' ''"
  shows "startsWith (a @ rest) [x, y] = startsWith a [x, y]"
proof (cases a)
  case Nil
  with assms show ?thesis by (cases rest) auto
next
  case (Cons p a')
  with assms show ?thesis by (cases a'; cases rest) auto
qed

lemma takeWhile_append_Nil: "takeWhile P (a @ b) = [] \<Longrightarrow> takeWhile P a = []"
  by (cases a) (auto split: if_splits)

lemma startsWith2_length: "startsWith a [x, y] \<Longrightarrow> 2 \<le> length a"
  by (cases a; cases "tl a") auto

lemma parseInt_None_iff: "parseInt s = None \<longleftrightarrow> digit_run (strip_sign (dropWhile is_ws s)) = []"
  by (simp add: parseInt_def Let_def digit_run_def strip_sign_def is_hex_def)

lemma strip_sign_append: "T \<noteq> [] \<Longrightarrow> strip_sign (T @ rest) = strip_sign T @ rest"
  by (cases T) (simp_all add: strip_sign_def)

lemma is_hex_append: "rest = [] \<or> hd rest = CHR '' '' \<Longrightarrow> is_hex (a @ rest) = is_hex a"
  by (simp add: is_hex_def startsWith2_append)

lemma is_hex_length: "is_hex a \<Longrightarrow> 2 \<le> length a"
  by (auto simp: is_hex_def dest: startsWith2_length)

lemma digit_run_append:
  assumes "rest = [] \<or> hd rest = CHR '' ''" and "digit_run (a @ rest) = []"
  shows "digit_run a = []"
proof (cases "is_hex a")
  case True
  then have "drop 2 (a @ rest) = drop 2 a @ rest"
    using is_hex_length [of a] by simp
  with True assms have "takeWhile (is_digit_in 16) (drop 2 a @ rest) = []"
    by (simp add: digit_run_def is_hex_append)
  then have "takeWhile (is_digit_in 16) (drop 2 a) = []"
    by (rule takeWhile_append_Nil)
  with True show ?thesis
    by (simp add: digit_run_def)
next
  case False
  with assms have "takeWhile (is_digit_in 10) (a @ rest) = []"
    by (simp add: digit_run_def is_hex_append)
  then have "takeWhile (is_digit_in 10) a = []"
    by (rule takeWhile_append_Nil)
  with False show ?thesis
    by (simp add: digit_run_def)
qed

lemma digit_run_Nil: "digit_run (strip_sign []) = []"
  by (simp add: digit_run_def strip_sign_def is_hex_def)

lemma parseInt_prefix_None:
  assumes nan: "parseInt (t @ rest) = None" and rest: "rest = [] \<or> hd rest = CHR '' ''"
  shows "parseInt t = None"
proof (cases "dropWhile is_ws t = []")
  case True
  then show ?thesis
    by (simp only: parseInt_None_iff digit_run_Nil)
next
  case False
  then have "\<exists>x \<in> set t. \<not> is_ws x"
    by (auto simp: dropWhile_eq_Nil_conv)
  then have "dropWhile is_ws (t @ rest) = dropWhile is_ws t @ rest"
    by (auto simp: dropWhile_append1)
  moreover have "strip_sign (dropWhile is_ws t @ rest) = strip_sign (dropWhile is_ws t) @ rest"
    using False by (rule strip_sign_append)
  ultimately have "digit_run (strip_sign (dropWhile is_ws t) @ rest) = []"
    using nan by (simp only: parseInt_None_iff)
  with rest have "digit_run (strip_sign (dropWhile is_ws t)) = []"
    by (rule digit_run_append)
  then show ?thesis
    by (simp only: parseInt_None_iff)
qed

lemma parseInt_first_token:
  assumes "parseInt s = None"
  shows "parseInt (hd (split CHR '' '' s)) = None"
proof -
  have "s = takeWhile (\<lambda>c. c \<noteq> CHR '' '') s @ dropWhile (\<lambda>c. c \<noteq> CHR '' '') s"
    by simp
  moreover have "dropWhile (\<lambda>c. c \<noteq> CHR '' '') s = []
                 \<or> hd (dropWhile (\<lambda>c. c \<noteq> CHR '' '') s) = CHR '' ''"
    using hd_dropWhile [of "\<lambda>c. c \<noteq> CHR '' ''" s] by auto
  ultimately show ?thesis
    using assms parseInt_prefix_None by (metis hd_split)
qed

lemma parseInt_undefined: "parseInt ''undefined'' = None"
  by code_simp


lemma bindE_eq_Inl: "bindE m f = Inl e \<longleftrightarrow> m = Inl e \<or> (\<exists>x. m = Inr x \<and> f x = Inl e)"
  by (cases m) simp_all

lemma getProp_ok: "\<not> nullish v \<Longrightarrow> \<exists>x. getProp v k = Inr x"
  by (cases v) simp_all

lemma index0_ok: "\<not> nullish v \<Longrightarrow> \<exists>x. index0 v = Inr x"
  by (cases v) simp_all

lemma optchain_getProp_ok: "\<exists>x. optchain v (\<lambda>a. getProp a k) = Inr x"
  by (cases "nullish v") (simp_all add: optchain_def getProp_ok)

lemma specialty_of_ok:
  assumes "map_of kvs ''specialities'' = Some ss" and "\<not> nullish ss"
  shows "\<exists>x. specialty_of (JObj kvs) = Inr x"
proof -
  from assms(2) obtain s0 where "index0 ss = Inr s0"
    using index0_ok by blast
  moreover obtain n where "optchain s0 (\<lambda>a. getProp a ''name'') = Inr n"
    using optchain_getProp_ok by blast
  ultimately show ?thesis
    using assms(1) by (simp add: specialty_of_def)
qed

lemma location_of_ok: "\<exists>x. location_of (JObj kvs) = Inr x"
proof -
  obtain c where c: "getProp (JObj kvs) ''clinic'' = Inr c"
    by simp
  obtain a where a: "optchain c (\<lambda>a. getProp a ''address'') = Inr a"
    using optchain_getProp_ok by blast
  obtain l where l: "optchain a (\<lambda>a. getProp a ''locality'') = Inr l"
    using optchain_getProp_ok by blast
  show ?thesis
    unfolding location_of_def c bindE_Inr a l by simp
qed

lemma address_of_ok: "\<exists>x. address_of (JObj kvs) = Inr x"
proof -
  obtain c where c: "getProp (JObj kvs) ''clinic'' = Inr c"
    by simp
  obtain n where n: "optchain c (\<lambda>a. getProp a ''name'') = Inr n"
    using optchain_getProp_ok by blast
  show ?thesis
    unfolding address_of_def c bindE_Inr n by simp
qed

lemma experience_of_non_numeric:
  assumes "map_of kvs ''experience'' = Some (JStr s)" and "non_numeric s"
  shows "experience_of (JObj kvs) = Inr 0"
  using assms parseInt_first_token [of s]
  by (simp add: experience_of_def parseInt_opt_def or0_def non_numeric_def)

lemma fee_of_absent:
  assumes "map_of kvs ''fees'' = None"
  shows "fee_of v (JObj kvs) = Inr 0"
  using assms by (simp add: fee_of_def parseInt_opt_def or0_def parseInt_undefined)

lemma missing_specialities_throws:
  assumes "map_of kvs ''specialities'' = None"
  shows "transform v r (JObj kvs) = Inl TypeError"
  using assms by (simp add: transform_def specialty_of_def)

lemma mapE_Inl: "x \<in> set xs \<Longrightarrow> f x = Inl e \<Longrightarrow> \<exists>e'. mapE f xs = Inl e'"
proof (induction xs)
  case Nil
  then show ?case by simp
next
  case (Cons y ys)
  show ?case
  proof (cases "f y")
    case (Inl a)
    then show ?thesis by simp
  next
    case (Inr b)
    with Cons show ?thesis by (cases "x = y") auto
  qed
qed

lemma mapE_Inl_elem: "mapE f xs = Inl e \<Longrightarrow> \<exists>x \<in> set xs. f x = Inl e"
  by (induction xs) (auto simp: bindE_eq_Inl)

lemma getProp_err: "getProp v k = Inl e \<Longrightarrow> e = TypeError"
  by (cases v) simp_all

lemma index0_err: "index0 v = Inl e \<Longrightarrow> e = TypeError"
  by (cases v) simp_all

lemma str_method_err: "str_method v m = Inl e \<Longrightarrow> e = TypeError"
  by (cases v) simp_all

lemma optchain_getProp_err: "optchain v (\<lambda>a. getProp a k) = Inl e \<Longrightarrow> e = TypeError"
  by (auto simp: optchain_def split: if_splits dest: getProp_err)

lemma specialty_of_err: "specialty_of d = Inl e \<Longrightarrow> e = TypeError"
  by (auto simp: specialty_of_def bindE_eq_Inl dest: getProp_err index0_err optchain_getProp_err)

lemma experience_of_err: "experience_of d = Inl e \<Longrightarrow> e = TypeError"
  by (auto simp: experience_of_def bindE_eq_Inl dest: getProp_err str_method_err)

lemma location_of_err: "location_of d = Inl e \<Longrightarrow> e = TypeError"
  by (auto simp: location_of_def bindE_eq_Inl dest: getProp_err optchain_getProp_err)

lemma address_of_err: "address_of d = Inl e \<Longrightarrow> e = TypeError"
  by (auto simp: address_of_def bindE_eq_Inl dest: getProp_err optchain_getProp_err)

lemma fee_of_err: "fee_of v d = Inl e \<Longrightarrow> e = TypeError"
  by (auto simp: fee_of_def bindE_eq_Inl dest: getProp_err str_method_err)

lemma transform_err: "transform v r d = Inl e \<Longrightarrow> e = TypeError"
  unfolding transform_def bindE_eq_Inl
  by (elim disjE exE conjE)
     (auto dest: getProp_err specialty_of_err experience_of_err location_of_err
                 address_of_err fee_of_err)

lemma transformedData_err: "transformedData v rnd data = Inl e \<Longrightarrow> e = TypeError"
  by (cases data) (auto simp: transformedData_def dest!: mapE_Inl_elem dest: transform_err)

lemma in_set_enumerate: "x \<in> set xs \<Longrightarrow> \<exists>i. (i, x) \<in> set (enumerate n xs)"
  by (metis enumerate_eq_zip in_set_conv_nth in_set_zip length_enumerate nth_enumerate_eq prod.collapse snd_conv nth_mem)



lemma sorting_fetchDoctors: "sorting (fst (fetchDoctors v rnd outcome s)) = sorting s"
  by (simp add: fetchDoctors_def Let_def split: sum.splits)

lemma applyQuery_Nil: "applyQuery v [] c = Inr []"
  by (simp add: applyQuery_def specialtyStage_def consultationStage_def searchStage_def
        sortStage_def Let_def)

lemma serializeToURL_initial: "serializeToURL initial = []"
  by code_simp

lemma applyEffect_first_render:
  "applyEffect v \<lparr> app = initial, url_query = q \<rparr> = Inr \<lparr> app = initial, url_query = [] \<rparr>"
proof -
  have "doctors initial = []" and "initial\<lparr>filteredDoctors := []\<rparr> = initial"
    by (simp_all add: initial_def)
  then show ?thesis
    by (simp add: applyEffect_def applyQuery_Nil serializeToURL_initial)
qed

lemma deserializeFromURL_empty_query:
  "deserializeFromURL \<lparr> app = initial, url_query = [] \<rparr> = \<lparr> app = initial, url_query = [] \<rparr>"
  by code_simp

lemma mount_initial: "mount v q = Inr \<lparr> app = initial, url_query = [] \<rparr>"
  by (simp add: mount_def applyEffect_first_render deserializeFromURL_empty_query)

lemma sorting_applyEffect: "applyEffect v p = Inr p' \<Longrightarrow> sorting (app p') = sorting (app p)"
  by (auto simp: applyEffect_def bindE_eq_Inr)

section \<open>The derived list\<close>

text \<open>
  Claim C1.  For every raw list \<open>L\<close> of records (name and specialty strings, as the
  specification's data model has them) and every criteria value \<open>c\<close>, \<open>applyQuery\<close> returns,
  and what it returns is the subsequence of \<open>L\<close> holding exactly the records that pass
  the specialty predicate and the consultation-mode predicate and the search predicate,
  left as it is when no sort is chosen, and otherwise sorted stably by fee (ascending) or
  by experience (descending).  The right-hand side depends on \<open>L\<close> and \<open>c\<close> only, so running
  again on the same inputs gives the same list.
\<close>

theorem applyQuery_is_filter_then_sort:
  assumes "\<forall>d \<in> set L. is_str (name d) \<and> is_str (specialty d)"
  shows "subseq (matching v c L) L \<and>
         applyQuery v L c =
           Inr (if fees (sorting c) then sort_key fee (matching v c L)
                else if experience' (sorting c) then sort_key (\<lambda>d. - experience d) (matching v c L)
                else matching v c L)"
  using applyQuery_matching [OF assms, of v c]
  by (simp add: sortStage_fees sortStage_experience sortStage_none matching_def)

theorem applyQuery_is_filter_then_sort_witness:
  "list_all (\<lambda>d. is_str (name d) \<and> is_str (specialty d)) [anna, hannah, bob]
   \<and> matching Richer dentists_on_video_by_fee [anna, hannah, bob] = [anna, bob]
   \<and> applyQuery Richer [anna, hannah, bob] dentists_on_video_by_fee = Inr [bob, anna]"
proof -
  have typed: "\<forall>d \<in> set [anna, hannah, bob]. is_str (name d) \<and> is_str (specialty d)"
    by (simp add: anna_def hannah_def bob_def mk_def)
  have m: "matching Richer dentists_on_video_by_fee [anna, hannah, bob] = [anna, bob]"
    by code_simp
  have f: "fees (sorting dentists_on_video_by_fee)"
    by code_simp
  have s: "sort_key fee [anna, bob] = [bob, anna]"
    by code_simp
  from applyQuery_is_filter_then_sort [OF typed, of Richer dentists_on_video_by_fee]
  have "applyQuery Richer [anna, hannah, bob] dentists_on_video_by_fee = Inr [bob, anna]"
    by (simp only: m f s if_True)
  moreover have "list_all (\<lambda>d. is_str (name d) \<and> is_str (specialty d)) [anna, hannah, bob]"
    using typed by simp
  ultimately show ?thesis
    using m by blast
qed

text \<open>
  Claim C4.  When the fee sort is chosen, every adjacent pair \<open>(a, b)\<close> of the output of
  \<open>applyQuery\<close> has \<open>fee a \<le> fee b\<close>, and the sort is stable: the output is a rearrangement
  of the list the same query gives without a sort, and for every fee the records with that
  fee stand in the output in the order they had there.
\<close>

theorem applyQuery_fee_ascending_stable:
  assumes "fees (sorting c)" and "applyQuery v L c = Inr out"
  shows "(\<forall>i. Suc i < length out \<longrightarrow> fee (out ! i) \<le> fee (out ! Suc i)) \<and>
         (\<exists>pre. applyQuery v L (c\<lparr>sorting := \<lparr>fees = False, experience' = False\<rparr>\<rparr>) = Inr pre
                \<and> mset out = mset pre
                \<and> (\<forall>k. filter (\<lambda>d. fee d = k) out = filter (\<lambda>d. fee d = k) pre))"
proof -
  from applyQuery_unsorted [OF assms(2)] obtain pre where
    pre: "applyQuery v L (c\<lparr>sorting := \<lparr>fees = False, experience' = False\<rparr>\<rparr>) = Inr pre"
    and out: "out = sort_key fee pre"
    using assms(1) by (auto simp: sortStage_fees)
  have "sorted (map fee out)"
    by (simp add: out)
  then have "\<forall>i. Suc i < length out \<longrightarrow> fee (out ! i) \<le> fee (out ! Suc i)"
    by (auto simp: sorted_iff_nth_Suc)
  moreover have "mset out = mset pre"
    "\<forall>k. filter (\<lambda>d. fee d = k) out = filter (\<lambda>d. fee d = k) pre"
    by (simp_all add: out sort_key_stable)
  ultimately show ?thesis
    using pre by blast
qed

theorem applyQuery_fee_ascending_stable_witness:
  "fees (sorting by_fee)
   \<and> applyQuery Plain [anna, hannah, bob] by_fee = Inr [bob, anna, hannah]
   \<and> fee bob \<le> fee anna \<and> fee anna \<le> fee hannah
   \<and> applyQuery Plain [anna, hannah, bob]
         (by_fee\<lparr>sorting := \<lparr>fees = False, experience' = False\<rparr>\<rparr>) = Inr [anna, hannah, bob]
   \<and> filter (\<lambda>d. fee d = 100) [bob, anna, hannah] = filter (\<lambda>d. fee d = 100) [anna, hannah, bob]
   \<and> filter (\<lambda>d. fee d = 100) [bob, anna, hannah] = [anna, hannah]"
proof -
  have f: "fees (sorting by_fee)"
    by code_simp
  have out: "applyQuery Plain [anna, hannah, bob] by_fee = Inr [bob, anna, hannah]"
    by code_simp
  have pre: "applyQuery Plain [anna, hannah, bob]
         (by_fee\<lparr>sorting := \<lparr>fees = False, experience' = False\<rparr>\<rparr>) = Inr [anna, hannah, bob]"
    by code_simp
  have ties: "filter (\<lambda>d. fee d = 100) [bob, anna, hannah] = [anna, hannah]"
    by code_simp
  note T = applyQuery_fee_ascending_stable [OF f out]
  have "fee bob \<le> fee anna"
    using T [THEN conjunct1, THEN spec, of 0] by simp
  moreover have "fee anna \<le> fee hannah"
    using T [THEN conjunct1, THEN spec, of "Suc 0"] by simp
  ultimately have adj: "fee bob \<le> fee anna" "fee anna \<le> fee hannah"
    by blast+
  from T pre have "filter (\<lambda>d. fee d = 100) [bob, anna, hannah]
                   = filter (\<lambda>d. fee d = 100) [anna, hannah, bob]"
    by auto
  with f out adj pre ties show ?thesis
    by blast
qed

text \<open>
  Claim C5.  When the experience sort is chosen (and the fee sort is not), every adjacent
  pair \<open>(a, b)\<close> of the output of \<open>applyQuery\<close> has \<open>experience a \<ge> experience b\<close>.
\<close>

theorem applyQuery_experience_descending:
  assumes "experience' (sorting c)" and "\<not> fees (sorting c)" and "applyQuery v L c = Inr out"
  shows "\<forall>i. Suc i < length out \<longrightarrow> experience (out ! i) \<ge> experience (out ! Suc i)"
proof -
  from applyQuery_unsorted [OF assms(3)] obtain pre where
    out: "out = sort_key (\<lambda>d. - experience d) pre"
    using assms(1,2) by (auto simp: sortStage_experience)
  have "sorted (map (\<lambda>d. - experience d) out)"
    by (simp add: out)
  then show ?thesis
    by (auto simp: sorted_iff_nth_Suc)
qed

theorem applyQuery_experience_descending_witness:
  "experience' (sorting by_experience) \<and> \<not> fees (sorting by_experience)
   \<and> applyQuery Richer [anna, hannah, bob] by_experience = Inr [hannah, bob, anna]
   \<and> experience hannah \<ge> experience bob \<and> experience bob \<ge> experience anna"
proof -
  have e: "experience' (sorting by_experience)"
    by code_simp
  have f: "\<not> fees (sorting by_experience)"
    by code_simp
  have out: "applyQuery Richer [anna, hannah, bob] by_experience = Inr [hannah, bob, anna]"
    by code_simp
  note T = applyQuery_experience_descending [OF e f out]
  have "experience hannah \<ge> experience bob"
    using T [THEN spec, of 0] by simp
  moreover have "experience bob \<ge> experience anna"
    using T [THEN spec, of "Suc 0"] by simp
  ultimately show ?thesis
    using e f out by blast
qed

section \<open>Search and specialty filters\<close>

text \<open>
  Claim C6.  The search filter is a case-insensitive substring match.  The empty search
  string keeps every record.  For a record whose name and specialty are strings, the record
  passes exactly when the lowercased search string occurs in the lowercased name or, in
  \<^verbatim>\<open>App.jsx\<close> only, in the lowercased specialty; so the search stage keeps exactly the records
  the specification's search predicate accepts.  In particular \<^verbatim>\<open>"ann"\<close> matches a record
  named \<^verbatim>\<open>"Anna Smith"\<close> and one named \<^verbatim>\<open>"DR. HANNAH"\<close>.
\<close>

theorem search_is_case_insensitive_substring:
  "searchStage v [] L = Inr L
   \<and> (name d = JStr n \<longrightarrow> specialty d = JStr sp \<longrightarrow>
        searchPred v q d = Inr (sublist (toLowerCase q) (toLowerCase n)
                                \<or> (v = Richer \<and> sublist (toLowerCase q) (toLowerCase sp))))
   \<and> ((\<forall>d \<in> set L. is_str (name d) \<and> is_str (specialty d)) \<longrightarrow>
        searchStage v q L = Inr (filter (passes_search v q) L))
   \<and> (name a = JStr ''Anna Smith'' \<longrightarrow> searchPred v ''ann'' a = Inr True)
   \<and> (name h = JStr ''DR. HANNAH'' \<longrightarrow> searchPred v ''ann'' h = Inr True)"
proof -
  have "includes_js (toLowerCase ''Anna Smith'') (toLowerCase ''ann'')"
    by code_simp
  then have a: "name a = JStr ''Anna Smith'' \<longrightarrow> searchPred v ''ann'' a = Inr True"
    by (simp add: searchPred_def)
  have "includes_js (toLowerCase ''DR. HANNAH'') (toLowerCase ''ann'')"
    by code_simp
  then have h: "name h = JStr ''DR. HANNAH'' \<longrightarrow> searchPred v ''ann'' h = Inr True"
    by (simp add: searchPred_def)
  have e: "searchStage v [] L = Inr L"
    by (simp add: searchStage_def)
  from a h e show ?thesis
    by (simp add: searchStage_str searchPred_str)
qed

theorem search_is_case_insensitive_substring_witness:
  "name bob = JStr ''Bob Lee'' \<and> specialty bob = JStr ''Dentist''
   \<and> list_all (\<lambda>d. is_str (name d) \<and> is_str (specialty d)) [anna, bob, hannah]
   \<and> name anna = JStr ''Anna Smith'' \<and> name hannah = JStr ''DR. HANNAH''
   \<and> searchPred Plain ''DEN'' bob = Inr False
   \<and> searchPred Richer ''DEN'' bob = Inr True
   \<and> searchStage Plain ''DEN'' [anna, bob, hannah] = Inr []
   \<and> searchPred Plain ''ann'' anna = Inr True
   \<and> searchPred Plain ''ann'' hannah = Inr True"
proof -
  have n: "name bob = JStr ''Bob Lee''" and sp: "specialty bob = JStr ''Dentist''"
    by (simp_all add: bob_def mk_def)
  have typed: "\<forall>d \<in> set [anna, bob, hannah]. is_str (name d) \<and> is_str (specialty d)"
    by (simp add: anna_def hannah_def bob_def mk_def)
  have na: "name anna = JStr ''Anna Smith''" and nh: "name hannah = JStr ''DR. HANNAH''"
    by (simp_all add: anna_def hannah_def mk_def)
  have s1: "\<not> sublist (toLowerCase ''DEN'') (toLowerCase ''Bob Lee'')"
    by code_simp
  have s2: "sublist (toLowerCase ''DEN'') (toLowerCase ''Dentist'')"
    by code_simp
  have f: "filter (passes_search Plain ''DEN'') [anna, bob, hannah] = []"
    by code_simp
  note plain = search_is_case_insensitive_substring
    [where v = Plain and L = "[anna, bob, hannah]" and d = bob and n = "''Bob Lee''"
       and sp = "''Dentist''" and q = "''DEN''" and a = anna and h = hannah]
  note richer = search_is_case_insensitive_substring
    [where v = Richer and L = "[anna, bob, hannah]" and d = bob and n = "''Bob Lee''"
       and sp = "''Dentist''" and q = "''DEN''" and a = anna and h = hannah]
  have 1: "searchPred Plain ''DEN'' bob = Inr False"
    using plain n sp s1 by simp
  have 2: "searchPred Richer ''DEN'' bob = Inr True"
    using richer n sp s2 by simp
  have 3: "searchStage Plain ''DEN'' [anna, bob, hannah] = Inr []"
    using plain typed f by simp
  have 4: "searchPred Plain ''ann'' anna = Inr True" "searchPred Plain ''ann'' hannah = Inr True"
    using plain na nh by blast+
  have "list_all (\<lambda>d. is_str (name d) \<and> is_str (specialty d)) [anna, bob, hannah]"
    using typed by simp
  with n sp na nh 1 2 3 4 show ?thesis
    by blast
qed

text \<open>
  Claim C7.  With no specialty key active the specialty filter keeps every record.  With
  some keys active it keeps, of records whose specialty is a string, exactly those whose
  lowercased specialty contains the lowercased name of at least one active key (the key is
  the lowercase of its label).  So with \<^verbatim>\<open>dentist\<close> and \<^verbatim>\<open>physician\<close> both active the result
  holds exactly the records of the result for \<^verbatim>\<open>dentist\<close> alone and of the result for
  \<^verbatim>\<open>physician\<close> alone.
\<close>

theorem specialty_filter_is_union:
  "(activeSpecialtyFilters fs = [] \<longrightarrow> specialtyStage fs L = Inr L)
   \<and> ((\<forall>d \<in> set L. is_str (specialty d)) \<longrightarrow>
        activeSpecialtyFilters fs \<noteq> [] \<longrightarrow>
        specialtyStage fs L =
          Inr (filter (\<lambda>d. \<exists>k \<in> set (activeSpecialtyFilters fs).
                 sublist (toLowerCase k) (toLowerCase (the_str (specialty d)))) L))
   \<and> ((\<forall>d \<in> set L. is_str (specialty d)) \<longrightarrow>
        (\<exists>both ds ps.
           specialtyStage (filters both_on) L = Inr both \<and>
           specialtyStage (filters dentist_on) L = Inr ds \<and>
           specialtyStage (filters physician_on) L = Inr ps \<and>
           set both = set ds \<union> set ps))"
proof (intro conjI impI)
  assume "activeSpecialtyFilters fs = []"
  then show "specialtyStage fs L = Inr L"
    by (simp add: specialtyStage_def)
next
  assume typed: "\<forall>d \<in> set L. is_str (specialty d)" and some: "activeSpecialtyFilters fs \<noteq> []"
  then have "passes_specialty fs =
          (\<lambda>d. \<exists>k \<in> set (activeSpecialtyFilters fs).
                 sublist (toLowerCase k) (toLowerCase (the_str (specialty d))))"
    by (simp add: fun_eq_iff passes_specialty_active)
  with typed show "specialtyStage fs L =
          Inr (filter (\<lambda>d. \<exists>k \<in> set (activeSpecialtyFilters fs).
                 sublist (toLowerCase k) (toLowerCase (the_str (specialty d)))) L)"
    by (simp add: specialtyStage_str)
next
  assume typed: "\<forall>d \<in> set L. is_str (specialty d)"
  have "set (filter (passes_specialty (filters both_on)) L)
        = set (filter (passes_specialty (filters dentist_on)) L)
          \<union> set (filter (passes_specialty (filters physician_on)) L)"
    by (auto simp: union_on)
  with typed show "\<exists>both ds ps.
           specialtyStage (filters both_on) L = Inr both \<and>
           specialtyStage (filters dentist_on) L = Inr ds \<and>
           specialtyStage (filters physician_on) L = Inr ps \<and>
           set both = set ds \<union> set ps"
    by (simp add: specialtyStage_str)
qed

theorem specialty_filter_is_union_witness:
  "activeSpecialtyFilters (filters initial) = []
   \<and> specialtyStage (filters initial) [anna, carl, hannah, bob] = Inr [anna, carl, hannah, bob]
   \<and> list_all (\<lambda>d. is_str (specialty d)) [anna, carl, hannah, bob]
   \<and> activeSpecialtyFilters (filters both_on) \<noteq> []
   \<and> specialtyStage (filters both_on) [anna, carl, hannah, bob] = Inr [anna, hannah, bob]"
proof -
  have none: "activeSpecialtyFilters (filters initial) = []"
    by code_simp
  have typed: "\<forall>d \<in> set [anna, carl, hannah, bob]. is_str (specialty d)"
    by (simp add: anna_def carl_def hannah_def bob_def mk_def)
  have some: "activeSpecialtyFilters (filters both_on) \<noteq> []"
    by code_simp
  have f: "filter (\<lambda>d. \<exists>k \<in> set (activeSpecialtyFilters (filters both_on)).
                sublist (toLowerCase k) (toLowerCase (the_str (specialty d))))
             [anna, carl, hannah, bob] = [anna, hannah, bob]"
    by code_simp
  have 1: "specialtyStage (filters initial) [anna, carl, hannah, bob] = Inr [anna, carl, hannah, bob]"
    using specialty_filter_is_union [of "filters initial" "[anna, carl, hannah, bob]"] none
    by blast
  have "specialtyStage (filters both_on) [anna, carl, hannah, bob] =
          Inr (filter (\<lambda>d. \<exists>k \<in> set (activeSpecialtyFilters (filters both_on)).
                 sublist (toLowerCase k) (toLowerCase (the_str (specialty d))))
                [anna, carl, hannah, bob])"
    using specialty_filter_is_union [of "filters both_on" "[anna, carl, hannah, bob]"] typed some
    by blast
  then have 2: "specialtyStage (filters both_on) [anna, carl, hannah, bob] = Inr [anna, hannah, bob]"
    by (simp only: f)
  have "list_all (\<lambda>d. is_str (specialty d)) [anna, carl, hannah, bob]"
    using typed by simp
  with none 1 some 2 show ?thesis
    by blast
qed

section \<open>Criteria and the query string\<close>

text \<open>
  Claim C2.  In every state the page can reach (the first render, mounting at a URL with
  any query string, which runs the reading of the URL, then any sequence of
  \<^verbatim>\<open>handleSortChange\<close>, \<^verbatim>\<open>clearAllFilters\<close>, the other handlers, the end of the request and the
  recomputation of the derived list) the two sort indicators are never both active: the
  sort mode is none, by fee, or by experience.  Mounting succeeds at every query string.
\<close>

theorem sort_indicators_exclusive:
  "(reachable v p \<longrightarrow> \<not> (fees (sorting (app p)) \<and> experience' (sorting (app p))))
   \<and> (\<exists>p0. mount v q = Inr p0 \<and> reachable v p0)"
proof
  show "reachable v p \<longrightarrow> \<not> (fees (sorting (app p)) \<and> experience' (sorting (app p)))"
  proof
    assume "reachable v p"
    then show "\<not> (fees (sorting (app p)) \<and> experience' (sorting (app p)))"
    proof (induction rule: reachable.induct)
      case (first_render q)
      show ?case by (simp add: initial_def)
    next
      case (mounted q p)
      then have "p = \<lparr> app = initial, url_query = [] \<rparr>"
        by (simp add: mount_initial)
      then show ?case by (simp add: initial_def)
    next
      case (sort_change p sortType)
      show ?case by (auto simp: handleSortChange_def)
    next
      case (loaded p rnd outcome)
      then show ?case by (simp add: sorting_fetchDoctors)
    next
      case (recomputed p p')
      then show ?case by (simp add: sorting_applyEffect)
    qed (simp_all add: handleFilterChange_def handleConsultationTypeChange_def
           handleSearchChange_def clearAllFilters_def)
  qed
next
  show "\<exists>p0. mount v q = Inr p0 \<and> reachable v p0"
    using reachable.mounted [of v q] by (simp add: mount_initial)
qed

theorem sort_indicators_exclusive_witness:
  "mount Richer ''sort-fees=true&sort-experience=true'' = Inr \<lparr> app = initial, url_query = [] \<rparr>
   \<and> reachable Richer \<lparr> app = handleSortChange ''experience'' initial, url_query = [] \<rparr>
   \<and> \<not> (fees (sorting (handleSortChange ''experience'' initial))
        \<and> experience' (sorting (handleSortChange ''experience'' initial)))
   \<and> experience' (sorting (handleSortChange ''experience'' initial))"
proof -
  have m: "mount Richer ''sort-fees=true&sort-experience=true'' = Inr \<lparr> app = initial, url_query = [] \<rparr>"
    by (rule mount_initial)
  then have "reachable Richer \<lparr> app = initial, url_query = [] \<rparr>"
    by (rule reachable.mounted)
  then have "reachable Richer
      (\<lparr> app = initial, url_query = [] \<rparr>\<lparr>app := handleSortChange ''experience'' (app \<lparr> app = initial, url_query = [] \<rparr>)\<rparr>)"
    by (rule reachable.sort_change)
  then have r: "reachable Richer \<lparr> app = handleSortChange ''experience'' initial, url_query = [] \<rparr>"
    by simp
  have e: "experience' (sorting (handleSortChange ''experience'' initial))"
    by code_simp
  from sort_indicators_exclusive
    [of Richer "\<lparr> app = handleSortChange ''experience'' initial, url_query = [] \<rparr>"] r
  have "\<not> (fees (sorting (handleSortChange ''experience'' initial))
        \<and> experience' (sorting (handleSortChange ''experience'' initial)))"
    by simp
  with m r e show ?thesis
    by blast
qed

text \<open>
  Claim C3.  The criteria with \<^verbatim>\<open>dentist\<close> active, the fee sort and the search string
  \<^verbatim>\<open>"ann"\<close> are written as \<^verbatim>\<open>filter-specialty-dentist=true&sort-fees=true&search=ann\<close>, and the
  criteria of the start are written as the empty query string.  But the page loaded at the
  written URL does not come back to those criteria: the second effect has put the empty
  query in the URL before the third effect reads it, so the criteria stay those of the
  start, in both files.
\<close>

theorem url_criteria_not_restored_on_load:
  "serializeToURL spec_example = ''filter-specialty-dentist=true&sort-fees=true&search=ann''
   \<and> mount Richer (serializeToURL spec_example) = Inr \<lparr> app = initial, url_query = [] \<rparr>
   \<and> mount Plain (serializeToURL spec_example) = Inr \<lparr> app = initial, url_query = [] \<rparr>
   \<and> filters initial \<noteq> filters spec_example
   \<and> sorting initial \<noteq> sorting spec_example
   \<and> searchQuery initial \<noteq> searchQuery spec_example
   \<and> serializeToURL initial = []"
proof -
  have "serializeToURL spec_example = ''filter-specialty-dentist=true&sort-fees=true&search=ann''"
    by code_simp
  moreover have "filters initial \<noteq> filters spec_example"
    by code_simp
  moreover have "sorting initial \<noteq> sorting spec_example"
    by code_simp
  moreover have "searchQuery initial \<noteq> searchQuery spec_example"
    by code_simp
  ultimately show ?thesis
    by (simp add: mount_initial serializeToURL_initial)
qed

text \<open>
  The third effect does what its comment says, \<^verbatim>\<open>Handle URL parameters on page load\<close>, when
  the URL still has its query: run on the first render at the written URL, before the
  second effect, it gives the example criteria.  The order of the two effects is what
  loses them.
\<close>

lemma third_effect_before_second_restores:
  "deserializeFromURL \<lparr> app = initial, url_query = serializeToURL spec_example \<rparr>
     = \<lparr> app = spec_example, url_query = serializeToURL spec_example \<rparr>"
  by code_simp

section \<open>Loading the payload\<close>

text \<open>
  Claim C8, as the code has it.  For every payload item that has a \<^verbatim>\<open>specialities\<close> property
  other than \<^verbatim>\<open>null\<close>, whose \<^verbatim>\<open>experience\<close> is a non-numeric string and whose \<^verbatim>\<open>fees\<close> is
  absent, the transformation returns a record, with experience 0 and fee 0.
\<close>

theorem transform_defaults_numeric_fields:
  assumes "map_of kvs ''experience'' = Some (JStr s)" and "non_numeric s"
    and "map_of kvs ''fees'' = None"
    and "map_of kvs ''specialities'' = Some ss" and "\<not> nullish ss"
  shows "\<exists>r. transform v rnd (JObj kvs) = Inr r \<and> experience r = 0 \<and> fee r = 0"
proof -
  obtain sp where sp: "specialty_of (JObj kvs) = Inr sp"
    using specialty_of_ok [OF assms(4,5)] by blast
  obtain loc where loc: "location_of (JObj kvs) = Inr loc"
    using location_of_ok by blast
  obtain ad where ad: "address_of (JObj kvs) = Inr ad"
    using address_of_ok by blast
  note ex = experience_of_non_numeric [OF assms(1,2)]
  note f = fee_of_absent [OF assms(3), of v]
  show ?thesis
    by (simp add: transform_def sp loc ad ex f)
qed

theorem transform_defaults_numeric_fields_witness:
  "map_of malformed_fields ''experience'' = Some (JStr ''not a number'')
   \<and> non_numeric ''not a number''
   \<and> map_of malformed_fields ''fees'' = None
   \<and> map_of malformed_fields ''specialities'' = Some (JArr [])
   \<and> \<not> nullish (JArr [])
   \<and> (\<exists>r. transform Plain ''4.2'' (JObj malformed_fields) = Inr r \<and> experience r = 0 \<and> fee r = 0)"
proof -
  have 1: "map_of malformed_fields ''experience'' = Some (JStr ''not a number'')"
    by code_simp
  have 2: "non_numeric ''not a number''"
    by code_simp
  have 3: "map_of malformed_fields ''fees'' = None"
    by code_simp
  have 4: "map_of malformed_fields ''specialities'' = Some (JArr [])"
    by code_simp
  have 5: "\<not> nullish (JArr [])"
    by simp
  from transform_defaults_numeric_fields [OF 1 2 3 4 5] 1 2 3 4 5 show ?thesis
    by blast
qed

text \<open>
  The claim as it is written fails: an item with a non-numeric experience, no \<^verbatim>\<open>fees\<close> and
  no \<^verbatim>\<open>specialities\<close> makes the transformation throw.
\<close>

theorem transform_throws_without_specialities:
  "map_of fields_without_specialities ''experience'' = Some (JStr ''not a number'')
   \<and> non_numeric ''not a number''
   \<and> map_of fields_without_specialities ''fees'' = None
   \<and> transform Richer ''4.2'' (JObj fields_without_specialities) = Inl TypeError"
  by code_simp

text \<open>
  Claim C9.  Whenever loading fails (the request is rejected, the body does not decode, or
  mapping the payload throws), the raw list and the derived list are both empty and the
  loading flag is cleared; nothing of the payload is kept and nothing else of the state
  changes.  The state is the one a load of an empty array leaves; only the logged error
  tells them apart.  Recomputing the derived list from that raw list gives the empty list
  again.
\<close>

theorem load_failure_empties_lists:
  assumes "load_fails v rnd outcome"
  shows "fst (fetchDoctors v rnd outcome s) = s\<lparr>doctors := [], filteredDoctors := [], isLoading := False\<rparr>
       \<and> fst (fetchDoctors v rnd outcome s) = fst (fetchDoctors v rnd (Json (JArr [])) s)
       \<and> snd (fetchDoctors v rnd outcome s) \<noteq> None
       \<and> snd (fetchDoctors v rnd (Json (JArr [])) s) = None
       \<and> applyQuery v (doctors (fst (fetchDoctors v rnd outcome s))) c = Inr []"
proof -
  have empty: "applyQuery v [] c = Inr []"
    by (simp add: applyQuery_def specialtyStage_def consultationStage_def searchStage_def
          sortStage_def Let_def)
  have ok: "fetchDoctors v rnd (Json (JArr [])) s
            = (s\<lparr>doctors := [], filteredDoctors := [], isLoading := False\<rparr>, None)"
    by (simp add: fetchDoctors_def transformedData_def)
  from assms have "\<exists>e. fetchDoctors v rnd outcome s
            = (s\<lparr>doctors := [], filteredDoctors := [], isLoading := False\<rparr>, Some e)"
    by (cases outcome) (auto simp: load_fails_def fetchDoctors_def split: sum.splits)
  with ok empty show ?thesis
    by auto
qed

theorem load_failure_empties_lists_witness:
  "load_fails Richer fixed_rating (Json (JArr [JObj good_fields, JNum 5]))
   \<and> transform Richer ''4.2'' (JObj good_fields) = Inr (anna\<lparr>id' := JNum 1, rating := Some ''4.2''\<rparr>\<lparr>experience := 13, fee := 500\<rparr>)
   \<and> fst (fetchDoctors Richer fixed_rating (Json (JArr [JObj good_fields, JNum 5])) initial)
       = initial\<lparr>doctors := [], filteredDoctors := [], isLoading := False\<rparr>
   \<and> snd (fetchDoctors Richer fixed_rating (Json (JArr [JObj good_fields, JNum 5])) initial) \<noteq> None"
proof -
  have fails: "load_fails Richer fixed_rating (Json (JArr [JObj good_fields, JNum 5]))"
    by code_simp
  have good: "transform Richer ''4.2'' (JObj good_fields)
              = Inr (anna\<lparr>id' := JNum 1, rating := Some ''4.2''\<rparr>\<lparr>experience := 13, fee := 500\<rparr>)"
    by code_simp
  from load_failure_empties_lists [OF fails, of initial] fails good show ?thesis
    by blast
qed

text \<open>
  Claim C10.  If an item of the payload has no \<^verbatim>\<open>specialities\<close> property, reading
  \<^verbatim>\<open>specialities[0]\<close> throws, so the transformation of that item throws, the mapping of the
  whole payload throws, and \<^verbatim>\<open>fetchDoctors\<close> leaves the raw list and the derived list empty
  and logs the error: the other items are lost with it.  An item whose \<^verbatim>\<open>specialities\<close> is
  an empty array does not throw there; its specialty is the empty string.
\<close>

theorem missing_specialities_discards_list:
  assumes "JObj kvs \<in> set items" and "map_of kvs ''specialities'' = None"
  shows "bindE (getProp (JObj kvs) ''specialities'') index0 = Inl TypeError
       \<and> transform v r (JObj kvs) = Inl TypeError
       \<and> transformedData v rnd (JArr items) = Inl TypeError
       \<and> fetchDoctors v rnd (Json (JArr items)) s
           = (s\<lparr>doctors := [], filteredDoctors := [], isLoading := False\<rparr>, Some TypeError)
       \<and> (map_of kvs' ''specialities'' = Some (JArr []) \<longrightarrow> specialty_of (JObj kvs') = Inr (JStr []))"
proof -
  from assms(1) obtain i where i: "(i, JObj kvs) \<in> set (enumerate 0 items)"
    using in_set_enumerate [of "JObj kvs" items 0] by blast
  have thrown: "transform v r' (JObj kvs) = Inl TypeError" for r'
    using assms(2) by (rule missing_specialities_throws)
  have "(\<lambda>(i, doctor). transform v (rnd i) doctor) (i, JObj kvs) = Inl TypeError"
    by (simp add: thrown)
  from mapE_Inl [of "(i, JObj kvs)" "enumerate 0 items"
      "\<lambda>(i, doctor). transform v (rnd i) doctor" TypeError, OF i this] obtain e where
    "mapE (\<lambda>(i, doctor). transform v (rnd i) doctor) (enumerate 0 items) = Inl e"
    by blast
  then have "transformedData v rnd (JArr items) = Inl e"
    by (simp add: transformedData_def)
  then have t: "transformedData v rnd (JArr items) = Inl TypeError"
    using transformedData_err by blast
  have 1: "bindE (getProp (JObj kvs) ''specialities'') index0 = Inl TypeError"
    using assms(2) by simp
  have 4: "fetchDoctors v rnd (Json (JArr items)) s
           = (s\<lparr>doctors := [], filteredDoctors := [], isLoading := False\<rparr>, Some TypeError)"
    by (simp add: fetchDoctors_def t)
  have 5: "map_of kvs' ''specialities'' = Some (JArr []) \<longrightarrow> specialty_of (JObj kvs') = Inr (JStr [])"
    by (simp add: specialty_of_def optchain_def js_or_def)
  from 1 thrown t 4 5 show ?thesis
    by blast
qed

theorem missing_specialities_discards_list_witness:
  "JObj fields_without_specialities \<in> set [JObj good_fields, JObj fields_without_specialities, JObj malformed_fields]
   \<and> map_of fields_without_specialities ''specialities'' = None
   \<and> map_of malformed_fields ''specialities'' = Some (JArr [])
   \<and> transformedData Plain fixed_rating
        (JArr [JObj good_fields, JObj fields_without_specialities, JObj malformed_fields]) = Inl TypeError
   \<and> doctors (fst (fetchDoctors Plain fixed_rating
        (Json (JArr [JObj good_fields, JObj fields_without_specialities, JObj malformed_fields])) initial)) = []
   \<and> specialty_of (JObj malformed_fields) = Inr (JStr [])"
proof -
  have 1: "JObj fields_without_specialities
            \<in> set [JObj good_fields, JObj fields_without_specialities, JObj malformed_fields]"
    by simp
  have 2: "map_of fields_without_specialities ''specialities'' = None"
    by code_simp
  have 3: "map_of malformed_fields ''specialities'' = Some (JArr [])"
    by code_simp
  note T = missing_specialities_discards_list
    [OF 1 2, where v = Plain and rnd = fixed_rating and s = initial and kvs' = malformed_fields]
  from T have "fetchDoctors Plain fixed_rating
        (Json (JArr [JObj good_fields, JObj fields_without_specialities, JObj malformed_fields])) initial
      = (initial\<lparr>doctors := [], filteredDoctors := [], isLoading := False\<rparr>, Some TypeError)"
    by blast
  then have 4: "doctors (fst (fetchDoctors Plain fixed_rating
        (Json (JArr [JObj good_fields, JObj fields_without_specialities, JObj malformed_fields])) initial)) = []"
    by simp
  from T 1 2 3 4 show ?thesis
    by blast
qed

end
